theory Spec2Isabelle
  imports
    Complex_Main
    "HOL-Library.Char_ord"
    "HOL-Library.List_Lexorder"
    "HOL-Library.Product_Lexorder"
    "HOL-Library.Multiset"
begin

section \<open>Python values and exceptions\<close>

text \<open>
  The backends of abcd handle untyped Python values: query syntax trees are nested
  tuples, records and native filters are dictionaries, property values are scalars or
  nested lists. One datatype holds them all. Floats are modelled by the reals (rounding,
  infinities and NaN are not modelled); a \<open>datetime\<close> is modelled by its POSIX
  timestamp in seconds, which \<open>t.timestamp()\<close> reads; a dictionary is an association
  list in insertion order.
\<close>

datatype datetime = Datetime (timestamp: real)

datatype pyval =
    PNone
  | PBool bool
  | PInt int
  | PFloat real
  | PStr string
  | PDate datetime
  | PList "pyval list"
  | PTuple "pyval list"
  | PDict "(pyval \<times> pyval) list"

text \<open>
  Exceptions are values. The first five are the Python exceptions the modelled code can
  raise. \<open>UnsupportedPredicateError\<close> and \<open>FieldNotFoundError\<close> are the error
  classes the specification names; no statement of the source raises them.
\<close>

datatype py_error =
    TypeError
  | ValueError
  | IndexError
  | KeyError
  | AttributeError
  | UnsupportedPredicateError
  | FieldNotFoundError

datatype pytype = TNone | TBool | TInt | TFloat | TStr | TDatetime | TList | TTuple | TDict

fun type_of :: "pyval \<Rightarrow> pytype" where
  "type_of PNone = TNone"
| "type_of (PBool _) = TBool"
| "type_of (PInt _) = TInt"
| "type_of (PFloat _) = TFloat"
| "type_of (PStr _) = TStr"
| "type_of (PDate _) = TDatetime"
| "type_of (PList _) = TList"
| "type_of (PTuple _) = TTuple"
| "type_of (PDict _) = TDict"

text \<open>\<open>isinstance(v, t)\<close>: \<open>bool\<close> is a subclass of \<open>int\<close>.\<close>

definition isinstance :: "pyval \<Rightarrow> pytype \<Rightarrow> bool" where
  "isinstance v t = (type_of v = t \<or> (type_of v = TBool \<and> t = TInt))"

text \<open>Truth value of one of these values, as \<open>not data\<close> tests it; it never raises.\<close>

fun truthy :: "pyval \<Rightarrow> bool" where
  "truthy PNone = False"
| "truthy (PBool b) = b"
| "truthy (PInt i) = (i \<noteq> 0)"
| "truthy (PFloat x) = (x \<noteq> 0)"
| "truthy (PStr s) = (s \<noteq> [])"
| "truthy (PDate _) = True"
| "truthy (PList xs) = (xs \<noteq> [])"
| "truthy (PTuple xs) = (xs \<noteq> [])"
| "truthy (PDict kvs) = (kvs \<noteq> [])"

text \<open>Lists and dictionaries are unhashable; a tuple is hashable when its items are.\<close>

fun hashable :: "pyval \<Rightarrow> bool" where
  "hashable (PList _) = False"
| "hashable (PDict _) = False"
| "hashable (PTuple xs) = list_all hashable xs"
| "hashable _ = True"

text \<open>The dictionary display \<open>{k: v}\<close>: an unhashable key raises TypeError.\<close>

definition dict1 :: "pyval \<Rightarrow> pyval \<Rightarrow> py_error + pyval" where
  "dict1 k v = (if hashable k then Inr (PDict [(k, v)]) else Inl TypeError)"

text \<open>\<open>x[i]\<close> for a non-negative literal index \<open>i\<close> (the source only uses 0 and 1).\<close>

fun getitem :: "pyval \<Rightarrow> nat \<Rightarrow> py_error + pyval" where
  "getitem (PList xs) i = (if i < length xs then Inr (xs ! i) else Inl IndexError)"
| "getitem (PTuple xs) i = (if i < length xs then Inr (xs ! i) else Inl IndexError)"
| "getitem (PStr s) i = (if i < length s then Inr (PStr [s ! i]) else Inl IndexError)"
| "getitem (PDict kvs) i =
     (case map_of kvs (PInt (int i)) of None \<Rightarrow> Inl KeyError | Some v \<Rightarrow> Inr v)"
| "getitem _ i = Inl TypeError"

text \<open>\<open>str.lower\<close> on ASCII letters.\<close>

definition lower_char :: "char \<Rightarrow> char" where
  "lower_char c =
     (case map_of (zip ''ABCDEFGHIJKLMNOPQRSTUVWXYZ'' ''abcdefghijklmnopqrstuvwxyz'') c of
        Some d \<Rightarrow> d
      | None \<Rightarrow> c)"

definition str_lower :: "string \<Rightarrow> string" where
  "str_lower s = map lower_char s"

section \<open>The document-store query visitor (\<open>MongoQuery\<close>)\<close>

text \<open>
  A syntax tree is a tuple \<open>(op, arg, ...)\<close>; a field reference is \<open>("NAME", f)\<close> and a
  literal is a pair of its kind and its value, so that \<open>field[1]\<close> and \<open>value[1]\<close> read
  the name and the literal.
\<close>

definition visit_name :: "pyval list \<Rightarrow> py_error + pyval" where
  "visit_name args =
     (case args of
        [field] \<Rightarrow> dict1 field (PDict [(PStr ''$exists'', PBool True)])
      | _ \<Rightarrow> Inl TypeError)"

text \<open>The unpacking \<open>_, field = value\<close>: exactly two items, of any iterable.\<close>

fun unpack2 :: "pyval \<Rightarrow> py_error + pyval" where
  "unpack2 (PTuple xs) = (case xs of [_, field] \<Rightarrow> Inr field | _ \<Rightarrow> Inl ValueError)"
| "unpack2 (PList xs) = (case xs of [_, field] \<Rightarrow> Inr field | _ \<Rightarrow> Inl ValueError)"
| "unpack2 (PStr s) = (case s of [_, c] \<Rightarrow> Inr (PStr [c]) | _ \<Rightarrow> Inl ValueError)"
| "unpack2 (PDict kvs) = (case kvs of [_, (k, _)] \<Rightarrow> Inr k | _ \<Rightarrow> Inl ValueError)"
| "unpack2 _ = Inl TypeError"

definition visit_not :: "pyval list \<Rightarrow> py_error + pyval" where
  "visit_not args =
     (case args of
        [value] \<Rightarrow>
          (case unpack2 value of
             Inl e \<Rightarrow> Inl e
           | Inr field \<Rightarrow> dict1 field (PDict [(PStr ''$exists'', PBool False)]))
      | _ \<Rightarrow> Inl TypeError)"

text \<open>\<open>{field[1]: value[1]}\<close>: key expression first, then the value, then the display.\<close>

definition visit_eq :: "pyval list \<Rightarrow> py_error + pyval" where
  "visit_eq args =
     (case args of
        [field, value] \<Rightarrow>
          (case getitem field 1 of
             Inl e \<Rightarrow> Inl e
           | Inr k \<Rightarrow> (case getitem value 1 of Inl e \<Rightarrow> Inl e | Inr v \<Rightarrow> dict1 k v))
      | _ \<Rightarrow> Inl TypeError)"

text \<open>
  \<open>visit_re\<close>, \<open>visit_gt\<close>, \<open>visit_gte\<close>, \<open>visit_lt\<close> and \<open>visit_lte\<close> differ only in the
  operator key of the inner dictionary.
\<close>

definition visit_cmp :: "string \<Rightarrow> pyval list \<Rightarrow> py_error + pyval" where
  "visit_cmp key args =
     (case args of
        [field, value] \<Rightarrow>
          (case getitem field 1 of
             Inl e \<Rightarrow> Inl e
           | Inr k \<Rightarrow>
               (case getitem value 1 of
                  Inl e \<Rightarrow> Inl e
                | Inr v \<Rightarrow> dict1 k (PDict [(PStr key, v)])))
      | _ \<Rightarrow> Inl TypeError)"

fun items1 :: "pyval list \<Rightarrow> py_error + pyval list" where
  "items1 [] = Inr []"
| "items1 (value # values) =
     (case getitem value 1 of
        Inl e \<Rightarrow> Inl e
      | Inr v \<Rightarrow> (case items1 values of Inl e \<Rightarrow> Inl e | Inr vs \<Rightarrow> Inr (v # vs)))"

definition visit_in :: "pyval list \<Rightarrow> py_error + pyval" where
  "visit_in args =
     (case args of
        [] \<Rightarrow> Inl TypeError
      | field # values \<Rightarrow>
          (case getitem field 1 of
             Inl e \<Rightarrow> Inl e
           | Inr k \<Rightarrow>
               (case items1 values of
                  Inl e \<Rightarrow> Inl e
                | Inr vs \<Rightarrow> dict1 k (PDict [(PStr ''$in'', PList vs)]))))"

text \<open>\<open>try: ... except KeyError: pass\<close>: the method then returns \<open>None\<close>.\<close>

definition except_KeyError :: "py_error + pyval \<Rightarrow> py_error + pyval" where
  "except_KeyError r = (case r of Inl KeyError \<Rightarrow> Inr PNone | _ \<Rightarrow> r)"

text \<open>
  \<open>visit\<close> unpacks \<open>op, *args = syntax_tree\<close> (outside the \<open>try\<close>), looks the method
  \<open>"visit_" + op.lower()\<close> up (AttributeError when there is none, or when \<open>op\<close> is not a
  string) and calls it on the arguments (TypeError on a wrong number of them).
  \<open>visit_and\<close> and \<open>visit_or\<close> visit every argument in turn; \<open>visit_and\<close> also prints
  its arguments, which is not modelled. A string unpacks into its characters, and no
  method has a one-character suffix. The base class \<open>AbstractQuerySet\<close> is taken to
  add no \<open>visit_\<close> method of its own.
\<close>

fun visit :: "pyval \<Rightarrow> py_error + pyval"
  and dispatch :: "pyval list \<Rightarrow> py_error + pyval"
  and visit_each :: "pyval list \<Rightarrow> py_error + pyval list" where
  "visit (PTuple xs) = dispatch xs"
| "visit (PList xs) = dispatch xs"
| "visit (PStr s) = (if s = [] then Inl ValueError else Inl AttributeError)"
| "visit (PDict kvs) = dispatch (map fst kvs)"
| "visit PNone = Inl TypeError"
| "visit (PBool _) = Inl TypeError"
| "visit (PInt _) = Inl TypeError"
| "visit (PFloat _) = Inl TypeError"
| "visit (PDate _) = Inl TypeError"
| "dispatch [] = Inl ValueError"
| "dispatch (op # args) =
     except_KeyError
       (case op of
          PStr s \<Rightarrow>
            (let m = str_lower s in
             if m = ''name'' then visit_name args
             else if m = ''not'' then visit_not args
             else if m = ''and'' then
               (case visit_each args of
                  Inl e \<Rightarrow> Inl e
                | Inr vs \<Rightarrow> Inr (PDict [(PStr ''$and'', PList vs)]))
             else if m = ''or'' then
               (case visit_each args of
                  Inl e \<Rightarrow> Inl e
                | Inr vs \<Rightarrow> Inr (PDict [(PStr ''$or'', PList vs)]))
             else if m = ''eq'' then visit_eq args
             else if m = ''re'' then visit_cmp ''$regex'' args
             else if m = ''gt'' then visit_cmp ''$gt'' args
             else if m = ''gte'' then visit_cmp ''$gte'' args
             else if m = ''lt'' then visit_cmp ''$lt'' args
             else if m = ''lte'' then visit_cmp ''$lte'' args
             else if m = ''in'' then visit_in args
             else Inl AttributeError)
        | _ \<Rightarrow> Inl AttributeError)"
| "visit_each [] = Inr []"
| "visit_each (arg # args) =
     (case visit arg of
        Inl e \<Rightarrow> Inl e
      | Inr v \<Rightarrow> (case visit_each args of Inl e \<Rightarrow> Inl e | Inr vs \<Rightarrow> Inr (v # vs)))"

section \<open>Type and shape inference (\<open>get_type_of_property\<close>)\<close>

text \<open>
  A database is the list of its records, each a dictionary with string keys. The two
  clients are external: \<open>find_one({prop: {"$exists": True}})\<close> of the document store
  returns the first record that has the field, or \<open>None\<close>; the \<open>exists\<close> query of the
  search index with \<open>size: 1\<close> returns the list of at most one hit whose field is present
  and neither null nor an empty array.
\<close>

definition lookup_field :: "pyval \<Rightarrow> string \<Rightarrow> pyval option" where
  "lookup_field d prop = (case d of PDict kvs \<Rightarrow> map_of kvs (PStr prop) | _ \<Rightarrow> None)"

definition find_one_exists :: "pyval list \<Rightarrow> string \<Rightarrow> pyval" where
  "find_one_exists db prop =
     (case filter (\<lambda>d. lookup_field d prop \<noteq> None) db of [] \<Rightarrow> PNone | d # _ \<Rightarrow> d)"

definition search_exists :: "pyval list \<Rightarrow> string \<Rightarrow> pyval list" where
  "search_exists db prop =
     take 1 (filter (\<lambda>d. case lookup_field d prop of
                            None \<Rightarrow> False
                          | Some v \<Rightarrow> v \<noteq> PNone \<and> v \<noteq> PList []) db)"

text \<open>\<open>x[key]\<close> with a string key: only a dictionary can be subscripted so.\<close>

definition getkey :: "pyval \<Rightarrow> string \<Rightarrow> py_error + pyval" where
  "getkey d key =
     (case d of
        PDict kvs \<Rightarrow> (case map_of kvs (PStr key) of None \<Rightarrow> Inl KeyError | Some v \<Rightarrow> Inr v)
      | _ \<Rightarrow> Inl TypeError)"

text \<open>The module constant \<open>map_types\<close>, and the lookup \<open>map_types[type(x)]\<close>.\<close>

fun map_types :: "pytype \<Rightarrow> string option" where
  "map_types TBool = Some ''bool''"
| "map_types TFloat = Some ''float''"
| "map_types TInt = Some ''int''"
| "map_types TStr = Some ''str''"
| "map_types TDatetime = Some ''date''"
| "map_types TDict = Some ''dict''"
| "map_types _ = None"

definition type_name :: "pyval \<Rightarrow> py_error + string" where
  "type_name x = (case map_types (type_of x) of None \<Rightarrow> Inl KeyError | Some s \<Rightarrow> Inr s)"

text \<open>Decimal digits of a length, as string formatting prints them.\<close>

fun str_nat :: "nat \<Rightarrow> string" where
  "str_nat n =
     (if n < 10 then [''0123456789'' ! n]
      else str_nat (n div 10) @ [''0123456789'' ! (n mod 10)])"

declare str_nat.simps [simp del]

text \<open>
  The body shared by both backends once the sampled value \<open>data\<close> is fetched. The test
  \<open>isinstance(x, list)\<close> (\<open>type(x) == list\<close> in the search-index backend) is the
  pattern \<open>PList\<close>.
\<close>

definition describe_arrays :: "pyval \<Rightarrow> py_error + string" where
  "describe_arrays data =
     (case getitem data 0 of
        Inl e \<Rightarrow> Inl e
      | Inr d0 \<Rightarrow>
          (case d0 of
             PList row \<Rightarrow>
               (case getitem d0 0 of
                  Inl e \<Rightarrow> Inl e
                | Inr d00 \<Rightarrow>
                    (case type_name d00 of
                       Inl e \<Rightarrow> Inl e
                     | Inr t \<Rightarrow> Inr (''array('' @ t @ '', N x '' @ str_nat (length row) @ '')'')))
           | _ \<Rightarrow>
               (case type_name d0 of
                  Inl e \<Rightarrow> Inl e
                | Inr t \<Rightarrow> Inr (''vector('' @ t @ '', N)''))))"

definition describe_other :: "pyval \<Rightarrow> py_error + string" where
  "describe_other data =
     (case data of
        PList _ \<Rightarrow>
          (case getitem data 0 of
             Inl e \<Rightarrow> Inl e
           | Inr d0 \<Rightarrow>
               (case d0 of
                  PList _ \<Rightarrow>
                    (case getitem d0 0 of
                       Inl e \<Rightarrow> Inl e
                     | Inr d00 \<Rightarrow>
                         (case d00 of
                            PList _ \<Rightarrow> Inr ''list(list(...)''
                          | _ \<Rightarrow>
                              (case type_name d00 of
                                 Inl e \<Rightarrow> Inl e
                               | Inr t \<Rightarrow> Inr (''array('' @ t @ '')''))))
                | _ \<Rightarrow>
                    (case type_name d0 of
                       Inl e \<Rightarrow> Inl e
                     | Inr t \<Rightarrow> Inr (''vector('' @ t @ '')''))))
      | _ \<Rightarrow>
          (case type_name data of
             Inl e \<Rightarrow> Inl e
           | Inr t \<Rightarrow> Inr (''scalar('' @ t @ '')'')))"

text \<open>\<open>MongoDatabase.get_type_of_property\<close>: subscripting \<open>None\<close> raises TypeError.\<close>

definition get_type_of_property :: "pyval list \<Rightarrow> string \<Rightarrow> string \<Rightarrow> py_error + string" where
  "get_type_of_property db prop category =
     (case getkey (find_one_exists db prop) prop of
        Inl e \<Rightarrow> Inl e
      | Inr data \<Rightarrow>
          (if category = ''arrays'' then describe_arrays data else describe_other data))"

text \<open>
  \<open>OpenSearchDatabase.get_type_of_property\<close>: \<open>atoms["hits"]["hits"][0]\<close> raises
  IndexError on an empty list of hits.
\<close>

definition os_get_type_of_property :: "pyval list \<Rightarrow> string \<Rightarrow> string \<Rightarrow> py_error + string" where
  "os_get_type_of_property db prop category =
     (case search_exists db prop of
        [] \<Rightarrow> Inl IndexError
      | hit # _ \<Rightarrow>
          (case getkey hit prop of
             Inl e \<Rightarrow> Inl e
           | Inr data \<Rightarrow>
               (if category = ''arrays'' then describe_arrays data else describe_other data)))"

section \<open>The histogram engine\<close>

subsection \<open>The numerical library\<close>

text \<open>
  \<open>numpy\<close> is external. \<open>np.array\<close> picks the element type of the array: booleans only,
  64-bit integers (booleans among them count as 0 and 1), floats (integers are
  converted), or another type. The empty list gives an empty float array. An integer
  outside the 64-bit range makes numpy choose an unsigned, float or object array,
  depending on the values and on its version: the model does not follow these arrays,
  files them under \<open>ObjectArray\<close> with the non-numeric ones, and states no property of
  them.

  Integer arithmetic on the elements of an integer array is 64-bit and wraps around,
  which \<open>wrap64\<close> writes out. Float arithmetic is modelled by the reals: it is what
  numpy computes wherever every intermediate value is a float that needs no rounding,
  as at the concrete inputs evaluated below; rounding and the overflow to infinity are
  not modelled, and no property below is stated of a value that depends on them.
\<close>

definition in_int64 :: "int \<Rightarrow> bool" where
  "in_int64 i = (- (2 ^ 63) \<le> i \<and> i < 2 ^ 63)"

definition wrap64 :: "int \<Rightarrow> int" where
  "wrap64 i = (i + 2 ^ 63) mod 2 ^ 64 - 2 ^ 63"

datatype ndarray =
    BoolArray "bool list"
  | IntArray "int list"
  | FloatArray "real list"
  | ObjectArray

fun is_bool :: "pyval \<Rightarrow> bool" where
  "is_bool (PBool _) = True"
| "is_bool _ = False"

fun the_bool :: "pyval \<Rightarrow> bool" where
  "the_bool (PBool b) = b"
| "the_bool _ = False"

fun is_int :: "pyval \<Rightarrow> bool" where
  "is_int (PBool _) = True"
| "is_int (PInt _) = True"
| "is_int _ = False"

fun the_int :: "pyval \<Rightarrow> int" where
  "the_int (PBool b) = (if b then 1 else 0)"
| "the_int (PInt i) = i"
| "the_int _ = 0"

fun is_number :: "pyval \<Rightarrow> bool" where
  "is_number (PBool _) = True"
| "is_number (PInt _) = True"
| "is_number (PFloat _) = True"
| "is_number _ = False"

fun the_float :: "pyval \<Rightarrow> real" where
  "the_float (PBool b) = (if b then 1 else 0)"
| "the_float (PInt i) = of_int i"
| "the_float (PFloat x) = x"
| "the_float _ = 0"

definition np_array :: "pyval list \<Rightarrow> ndarray" where
  "np_array data =
     (if data = [] then FloatArray []
      else if list_all is_bool data then BoolArray (map the_bool data)
      else if list_all is_int data then
        (if list_all in_int64 (map the_int data) then IntArray (map the_int data)
         else ObjectArray)
      else if list_all is_number data then FloatArray (map the_float data)
      else ObjectArray)"

text \<open>The numbers of a numeric array, as the float computations see them.\<close>

fun reals_of :: "ndarray \<Rightarrow> real list option" where
  "reals_of (BoolArray bs) = Some (map (\<lambda>b. if b then 1 else 0) bs)"
| "reals_of (IntArray xs) = Some (map of_int xs)"
| "reals_of (FloatArray xs) = Some xs"
| "reals_of ObjectArray = None"

text \<open>
  Minimum and maximum of a non-empty array. Every caller tests for the empty array
  first, where numpy and the built-ins raise ValueError.
\<close>

fun list_min :: "'a::linorder list \<Rightarrow> 'a" where
  "list_min [] = undefined"
| "list_min (x # xs) = fold min xs x"

fun list_max :: "'a::linorder list \<Rightarrow> 'a" where
  "list_max [] = undefined"
| "list_max (x # xs) = fold max xs x"

definition np_mean :: "real list \<Rightarrow> real" where
  "np_mean xs = sum_list xs / real (length xs)"

definition np_var :: "real list \<Rightarrow> real" where
  "np_var xs = sum_list (map (\<lambda>x. (x - np_mean xs)\<^sup>2) xs) / real (length xs)"

definition np_std :: "real list \<Rightarrow> real" where
  "np_std xs = sqrt (np_var xs)"

text \<open>\<open>np.linspace(start, stop, n + 1)\<close>: the \<open>n + 1\<close> edges of \<open>n\<close> equal bins.\<close>

definition linspace :: "real \<Rightarrow> real \<Rightarrow> nat \<Rightarrow> real list" where
  "linspace start stop n = map (\<lambda>i. start + real i * (stop - start) / real n) [0..<Suc n]"

text \<open>
  Bin \<open>i\<close> of \<open>n\<close> holds the values from edge \<open>i\<close> up to, not including, edge \<open>i + 1\<close>;
  the last bin includes its right edge.
\<close>

definition in_bin :: "real list \<Rightarrow> nat \<Rightarrow> nat \<Rightarrow> real \<Rightarrow> bool" where
  "in_bin edges n i x =
     (edges ! i \<le> x \<and> (x < edges ! Suc i \<or> (Suc i = n \<and> x \<le> edges ! Suc i)))"

text \<open>
  \<open>np.histogram(a, bins=bins)\<close> for an integer number of bins: a number below 1 raises
  ValueError and \<open>None\<close> raises TypeError, before the array is looked at; a non-numeric
  array raises TypeError. The range is \<open>[min, max]\<close> of the data, \<open>[0, 1]\<close> for an empty
  array, and is widened by one half on each side when \<open>min = max\<close>.
\<close>

definition np_histogram :: "ndarray \<Rightarrow> int option \<Rightarrow> py_error + (nat list \<times> real list)" where
  "np_histogram a bins =
     (case bins of
        None \<Rightarrow> Inl TypeError
      | Some b \<Rightarrow>
          (if b < 1 then Inl ValueError
           else
             (case reals_of a of
                None \<Rightarrow> Inl TypeError
              | Some xs \<Rightarrow>
                  (let first_edge = (if xs = [] then 0 else list_min xs);
                       last_edge = (if xs = [] then 1 else list_max xs);
                       lo = (if first_edge = last_edge then first_edge - 1 / 2 else first_edge);
                       hi = (if first_edge = last_edge then last_edge + 1 / 2 else last_edge);
                       n = nat b;
                       bin_edges = linspace lo hi n
                   in Inr (map (\<lambda>i. length (filter (in_bin bin_edges n i) xs)) [0..<n],
                           bin_edges)))))"

subsection \<open>Histogram results\<close>

record num_hist =
  n_type :: string
  n_name :: string
  n_bins :: int
  n_edges :: "real list"
  n_counts :: "nat list"
  n_min :: real
  n_max :: real
  n_median :: real
  n_std :: real
  n_var :: real

record date_hist =
  d_type :: string
  d_name :: string
  d_bins :: int
  d_edges :: "datetime list"
  d_counts :: "nat list"
  d_min :: datetime
  d_max :: datetime
  d_median :: datetime
  d_std :: datetime
  d_var :: datetime

record str_hist =
  s_type :: string
  s_name :: string
  s_total :: nat
  s_unique :: nat
  s_labels :: "string list"
  s_counts :: "nat list"

datatype hist = HistNum num_hist | HistDate date_hist | HistStr str_hist

subsection \<open>\<open>_hist_float\<close> and \<open>_hist_int\<close>\<close>

text \<open>
  \<open>_hist_float\<close>: the histogram first, then the dictionary display, whose \<open>data.min()\<close>
  raises ValueError on an empty array.
\<close>

definition hist_float :: "string \<Rightarrow> pyval list \<Rightarrow> int option \<Rightarrow> py_error + num_hist" where
  "hist_float name data bins =
     (case np_histogram (np_array data) bins of
        Inl e \<Rightarrow> Inl e
      | Inr (hist, bin_edges) \<Rightarrow>
          (case (bins, reals_of (np_array data)) of
             (Some b, Some xs) \<Rightarrow>
               (if xs = [] then Inl ValueError
                else Inr \<lparr>n_type = ''hist_float'', n_name = name, n_bins = b,
                          n_edges = bin_edges, n_counts = hist,
                          n_min = list_min xs, n_max = list_max xs,
                          n_median = np_mean xs, n_std = np_std xs, n_var = np_var xs\<rparr>)
           | _ \<Rightarrow> Inl TypeError))"

text \<open>
  \<open>_hist_int\<close>: \<open>delta = max(data) - min(data) + 1\<close> with the built-in \<open>max\<close> and
  \<open>min\<close> (ValueError on an empty array; numpy booleans cannot be subtracted, and neither
  can strings: TypeError), then \<open>if bins > delta: bins = delta\<close>. On an integer array
  the subtraction and the addition are those of 64-bit numpy scalars and wrap around, so
  that \<open>delta\<close> can be negative, and \<open>np.histogram\<close> then raises ValueError. On a float
  array \<open>delta\<close> is a float, which \<open>np.histogram\<close> rejects as a number of bins.
\<close>

definition hist_int :: "string \<Rightarrow> pyval list \<Rightarrow> int option \<Rightarrow> py_error + num_hist" where
  "hist_int name data bins =
     (case np_array data of
        BoolArray _ \<Rightarrow> Inl TypeError
      | ObjectArray \<Rightarrow> Inl TypeError
      | IntArray xs \<Rightarrow>
          (if xs = [] then Inl ValueError
           else
             (case bins of
                None \<Rightarrow> Inl TypeError
              | Some b \<Rightarrow>
                  (let delta = wrap64 (wrap64 (list_max xs - list_min xs) + 1);
                       bins' = (if b > delta then delta else b)
                   in case np_histogram (IntArray xs) (Some bins') of
                        Inl e \<Rightarrow> Inl e
                      | Inr (hist, bin_edges) \<Rightarrow>
                          Inr \<lparr>n_type = ''hist_int'', n_name = name, n_bins = bins',
                               n_edges = bin_edges, n_counts = hist,
                               n_min = of_int (list_min xs), n_max = of_int (list_max xs),
                               n_median = np_mean (map of_int xs),
                               n_std = np_std (map of_int xs),
                               n_var = np_var (map of_int xs)\<rparr>)))
      | FloatArray xs \<Rightarrow>
          (if xs = [] then Inl ValueError
           else
             (case bins of
                None \<Rightarrow> Inl TypeError
              | Some b \<Rightarrow>
                  (if of_int b > list_max xs - list_min xs + 1 then Inl TypeError
                   else
                     (case np_histogram (FloatArray xs) (Some b) of
                        Inl e \<Rightarrow> Inl e
                      | Inr (hist, bin_edges) \<Rightarrow>
                          Inr \<lparr>n_type = ''hist_int'', n_name = name, n_bins = b,
                               n_edges = bin_edges, n_counts = hist,
                               n_min = list_min xs, n_max = list_max xs,
                               n_median = np_mean xs, n_std = np_std xs,
                               n_var = np_var xs\<rparr>)))))"

subsection \<open>\<open>_hist_date\<close>\<close>

text \<open>
  \<open>datetime.fromtimestamp\<close> belongs to the standard library: it raises ValueError when
  the moment falls outside the years 1 to 9999 that a \<open>datetime\<close> can hold. The local
  time zone is taken to be UTC and the rounding to microseconds is not modelled.
\<close>

definition min_timestamp :: real where
  "min_timestamp = - 62135596800"

definition max_timestamp :: real where
  "max_timestamp = 253402300800"

definition fromtimestamp :: "real \<Rightarrow> py_error + datetime" where
  "fromtimestamp x =
     (if min_timestamp \<le> x \<and> x < max_timestamp then Inr (Datetime x) else Inl ValueError)"

text \<open>\<open>[t.timestamp() for t in data]\<close>: AttributeError on anything but a datetime.\<close>

fun timestamps :: "pyval list \<Rightarrow> py_error + real list" where
  "timestamps [] = Inr []"
| "timestamps (t # ts) =
     (case t of
        PDate d \<Rightarrow> (case timestamps ts of Inl e \<Rightarrow> Inl e | Inr xs \<Rightarrow> Inr (timestamp d # xs))
      | _ \<Rightarrow> Inl AttributeError)"

text \<open>\<open>[fromtimestamp(d) for d in bin_edges]\<close>.\<close>

fun fromtimestamps :: "real list \<Rightarrow> py_error + datetime list" where
  "fromtimestamps [] = Inr []"
| "fromtimestamps (d # ds) =
     (case fromtimestamp d of
        Inl e \<Rightarrow> Inl e
      | Inr t \<Rightarrow> (case fromtimestamps ds of Inl e \<Rightarrow> Inl e | Inr ts \<Rightarrow> Inr (t # ts)))"

text \<open>
  The dictionary display evaluates its entries in order: the edges, the minimum, the
  maximum, the mean, the standard deviation, the variance. The first conversion that
  raises ends the call.
\<close>

definition hist_date :: "string \<Rightarrow> pyval list \<Rightarrow> int option \<Rightarrow> py_error + date_hist" where
  "hist_date name data bins =
     (case timestamps data of
        Inl e \<Rightarrow> Inl e
      | Inr hist_data \<Rightarrow>
     (case np_histogram (FloatArray hist_data) bins of
        Inl e \<Rightarrow> Inl e
      | Inr (hist, bin_edges) \<Rightarrow>
     (case bins of
        None \<Rightarrow> Inl TypeError
      | Some b \<Rightarrow>
     (case fromtimestamps bin_edges of
        Inl e \<Rightarrow> Inl e
      | Inr edges \<Rightarrow>
     (if hist_data = [] then Inl ValueError
      else
     (case fromtimestamp (list_min hist_data) of
        Inl e \<Rightarrow> Inl e
      | Inr tmin \<Rightarrow>
     (case fromtimestamp (list_max hist_data) of
        Inl e \<Rightarrow> Inl e
      | Inr tmax \<Rightarrow>
     (case fromtimestamp (np_mean hist_data) of
        Inl e \<Rightarrow> Inl e
      | Inr tmean \<Rightarrow>
     (case fromtimestamp (np_std hist_data) of
        Inl e \<Rightarrow> Inl e
      | Inr tstd \<Rightarrow>
     (case fromtimestamp (np_var hist_data) of
        Inl e \<Rightarrow> Inl e
      | Inr tvar \<Rightarrow>
          Inr \<lparr>d_type = ''hist_date'', d_name = name, d_bins = b,
               d_edges = edges, d_counts = hist,
               d_min = tmin, d_max = tmax,
               d_median = tmean, d_std = tstd, d_var = tvar\<rparr>))))))))))"

subsection \<open>\<open>_hist_str\<close>\<close>

text \<open>The slice \<open>xs[:k]\<close>: \<open>None\<close> keeps everything, a negative \<open>k\<close> drops from the end.\<close>

definition slice_to :: "int option \<Rightarrow> 'a list \<Rightarrow> 'a list" where
  "slice_to k xs =
     (case k of
        None \<Rightarrow> xs
      | Some i \<Rightarrow> (if 0 \<le> i then take (nat i) xs else take (length xs - nat (- i)) xs))"

text \<open>\<open>item[:truncate] + "..." if len(item) > truncate else item\<close>.\<close>

definition truncate_item :: "int \<Rightarrow> string \<Rightarrow> string" where
  "truncate_item t item =
     (if int (length item) > t then slice_to (Some t) item @ ''...'' else item)"

text \<open>\<open>if truncate:\<close> shortens every item; \<open>None\<close> and 0 leave the data as it is.\<close>

definition truncate_all :: "int option \<Rightarrow> string list \<Rightarrow> string list" where
  "truncate_all trunc data =
     (case trunc of
        None \<Rightarrow> data
      | Some t \<Rightarrow> (if t \<noteq> 0 then map (truncate_item t) data else data))"

text \<open>
  \<open>collections.Counter\<close>: every item adds one to the count of its key; a new key is
  appended, so the items are in order of first occurrence.
\<close>

fun counter_add :: "(string \<times> nat) list \<Rightarrow> string \<Rightarrow> (string \<times> nat) list" where
  "counter_add [] k = [(k, 1)]"
| "counter_add ((k', c) # kcs) k =
     (if k = k' then (k', Suc c) # kcs else (k', c) # counter_add kcs k)"

definition Counter :: "string list \<Rightarrow> (string \<times> nat) list" where
  "Counter data = foldl counter_add [] data"

text \<open>
  \<open>sorted(items, key=itemgetter(1, 0), reverse=True)\<close>: the key of an item is the pair
  (count, label); pairs compare lexicographically and strings by their characters. A
  reversed sort is the stable sort of the reversed list, reversed.
\<close>

definition sorted_reverse :: "(string \<times> nat) list \<Rightarrow> (string \<times> nat) list" where
  "sorted_reverse items = rev (sort_key (\<lambda>(label, count). (count, label)) (rev items))"

text \<open>
  \<open>labels, counts = zip(*items)\<close> raises ValueError when there is no item. The two
  options \<open>bins\<close> and \<open>truncate\<close> (here \<open>trunc\<close>) are \<open>None\<close> or an integer; both are
  tested for truth.
\<close>

definition hist_str :: "string \<Rightarrow> string list \<Rightarrow> int option \<Rightarrow> int option \<Rightarrow> py_error + str_hist" where
  "hist_str name data bins trunc =
     (let n_unique = card (set data);
          counter = Counter (truncate_all trunc data);
          items = (if bins \<noteq> None \<and> bins \<noteq> Some 0 then sorted_reverse counter else counter)
      in if items = [] then Inl ValueError
         else Inr \<lparr>s_type = ''hist_str'', s_name = name,
                   s_total = sum_list (map snd counter), s_unique = n_unique,
                   s_labels = slice_to bins (map fst items),
                   s_counts = slice_to bins (map snd items)\<rparr>)"

subsection \<open>\<open>histogram\<close>\<close>

text \<open>
  The keyword arguments: each of \<open>bins\<close> and \<open>truncate\<close> is absent, \<open>None\<close> or an
  integer. The two \<open>print\<close> calls and the log entries are not modelled.
\<close>

record kwargs =
  kw_bins :: "int option option"
  kw_truncate :: "int option option"

definition kwargs_get :: "int option option \<Rightarrow> int \<Rightarrow> int option" where
  "kwargs_get v dflt = (case v of None \<Rightarrow> Some dflt | Some x \<Rightarrow> x)"

fun the_str :: "pyval \<Rightarrow> string" where
  "the_str (PStr s) = s"
| "the_str _ = []"

definition returns :: "('a \<Rightarrow> hist) \<Rightarrow> py_error + 'a \<Rightarrow> py_error + hist option" where
  "returns wrap r = (case r of Inl e \<Rightarrow> Inl e | Inr h \<Rightarrow> Inr (Some (wrap h)))"

text \<open>
  The argument \<open>data\<close> is whatever the caller passes: one of the values above, a
  generator, or a numpy array, here a non-empty numeric one given by its first element
  and the others (the truth value of an empty array depends on the version of numpy).
  The truth test \<open>not data\<close> returns for all of them but an array of more than one
  element, where numpy raises ValueError; an array of one element has the truth value
  of that element, and a generator is true.
\<close>

datatype py_object =
    Value pyval
  | Generator
  | Ndarray real "real list"

fun truth_value :: "py_object \<Rightarrow> py_error + bool" where
  "truth_value (Value v) = Inr (truthy v)"
| "truth_value Generator = Inr True"
| "truth_value (Ndarray x []) = Inr (x \<noteq> 0)"
| "truth_value (Ndarray x (y # ys)) = Inl ValueError"

text \<open>\<open>isinstance(data, list)\<close>.\<close>

fun is_list :: "py_object \<Rightarrow> bool" where
  "is_list (Value (PList _)) = True"
| "is_list _ = False"

text \<open>
  After the test \<open>all(isinstance(x, ptype) for x in data)\<close> a list whose first element
  is a string holds strings only, which \<open>the_str\<close> reads.
\<close>

definition histogram :: "string \<Rightarrow> py_object \<Rightarrow> kwargs \<Rightarrow> py_error + hist option" where
  "histogram name data kwargs =
     (case truth_value data of
        Inl e \<Rightarrow> Inl e
      | Inr t \<Rightarrow>
     (if \<not> t then Inr None
      else
        (case data of
           Value (PList (x # xs)) \<Rightarrow>
             (let ptype = type_of x in
              if \<not> list_all (\<lambda>y. isinstance y ptype) (x # xs) then Inr None
              else if isinstance x TFloat then
                returns HistNum (hist_float name (x # xs) (kwargs_get (kw_bins kwargs) 10))
              else if isinstance x TInt then
                returns HistNum (hist_int name (x # xs) (kwargs_get (kw_bins kwargs) 10))
              else if isinstance x TStr then
                returns HistStr
                  (hist_str name (map the_str (x # xs))
                     (kwargs_get (kw_bins kwargs) 10) (kwargs_get (kw_truncate kwargs) 20))
              else if isinstance x TDatetime then
                returns HistDate (hist_date name (x # xs) (kwargs_get (kw_bins kwargs) 10))
              else Inr None)
         | _ \<Rightarrow> Inr None)))"

section \<open>Properties of the query visitor\<close>

lemma dict1_supported: "dict1 k v \<noteq> Inl UnsupportedPredicateError"
  by (simp add: dict1_def)

lemma getitem_supported: "getitem x i \<noteq> Inl UnsupportedPredicateError"
  by (cases x) (auto split: option.splits)

lemma unpack2_supported: "unpack2 x \<noteq> Inl UnsupportedPredicateError"
  by (cases x) (auto split: list.splits)

lemma items1_supported: "items1 xs \<noteq> Inl UnsupportedPredicateError"
  by (induction xs) (auto split: sum.splits simp: getitem_supported)

lemma visit_name_supported: "visit_name xs \<noteq> Inl UnsupportedPredicateError"
  by (auto simp: visit_name_def dict1_supported split: list.splits)

lemma visit_not_supported: "visit_not xs \<noteq> Inl UnsupportedPredicateError"
  by (auto simp: visit_not_def dict1_supported unpack2_supported split: list.splits sum.splits)

lemma visit_eq_supported: "visit_eq xs \<noteq> Inl UnsupportedPredicateError"
  by (auto simp: visit_eq_def dict1_supported getitem_supported split: list.splits sum.splits)

lemma visit_cmp_supported: "visit_cmp k xs \<noteq> Inl UnsupportedPredicateError"
  by (auto simp: visit_cmp_def dict1_supported getitem_supported split: list.splits sum.splits)

lemma visit_in_supported: "visit_in xs \<noteq> Inl UnsupportedPredicateError"
  by (auto simp: visit_in_def dict1_supported getitem_supported items1_supported
      split: list.splits sum.splits)

lemma except_KeyError_supported:
  "r \<noteq> Inl UnsupportedPredicateError \<Longrightarrow> except_KeyError r \<noteq> Inl UnsupportedPredicateError"
  by (auto simp: except_KeyError_def split: sum.splits py_error.splits)

text \<open>No path of the visitor raises the error class the specification names.\<close>

lemma visit_supported:
  "visit t \<noteq> Inl UnsupportedPredicateError"
  "dispatch xs \<noteq> Inl UnsupportedPredicateError"
  "visit_each ys \<noteq> Inl UnsupportedPredicateError"
proof (induction t and xs and ys rule: visit_dispatch_visit_each.induct)
  case (11 op args)
  show ?case
  proof (cases op)
    case (PStr s)
    note ih_and = 11(1)[OF PStr refl]
    note ih_or = 11(2)[OF PStr refl]
    show ?thesis
      unfolding dispatch.simps
      apply (rule except_KeyError_supported)
      using ih_and ih_or
      by (auto simp: PStr Let_def visit_name_supported visit_not_supported visit_eq_supported
          visit_cmp_supported visit_in_supported split: sum.splits)
  qed (simp_all add: except_KeyError_def)
next
  case (13 arg args)
  then show ?case by (auto split: sum.splits)
qed simp_all

lemma str_lower_NOT: "str_lower ''NOT'' = ''not''"
  by (simp add: str_lower_def lower_char_def)

lemma dispatch_NOT: "dispatch [PStr ''NOT'', node] = except_KeyError (visit_not [node])"
  by (simp add: str_lower_NOT)

text \<open>
  C1, as the claim states it, fails. Lowering \<open>Not(And(Name a, Name b))\<close> raises
  ValueError (the unpacking \<open>_, field = value\<close> meets three items), not
  UnsupportedPredicateError; and lowering \<open>Not(Not(Name a))\<close>, whose operand has two
  items, raises nothing: it returns a filter whose key is the tuple \<open>("NAME", "a")\<close>.
\<close>

theorem visit_not_other_counterexample:
  "visit (PTuple [PStr ''NOT'',
            PTuple [PStr ''AND'', PTuple [PStr ''NAME'', PStr ''a''],
                                  PTuple [PStr ''NAME'', PStr ''b'']]])
     = Inl ValueError
   \<and> visit (PTuple [PStr ''NOT'',
            PTuple [PStr ''AND'', PTuple [PStr ''NAME'', PStr ''a''],
                                  PTuple [PStr ''NAME'', PStr ''b'']]])
     \<noteq> Inl UnsupportedPredicateError
   \<and> visit (PTuple [PStr ''NOT'', PTuple [PStr ''NOT'', PTuple [PStr ''NAME'', PStr ''a'']]])
     = Inr (PDict [(PTuple [PStr ''NAME'', PStr ''a''],
                    PDict [(PStr ''$exists'', PBool False)])])"
  by (simp add: dispatch_NOT visit_not_def dict1_def except_KeyError_def del: dispatch.simps)

text \<open>
  C1, amended: lowering \<open>Not(Name(f))\<close> gives the filter \<open>{f: {"$exists": False}}\<close>
  ("field f is absent"); no lowering raises UnsupportedPredicateError; and lowering
  \<open>Not(node)\<close> for a node that has not exactly two items (an operator with no or with
  several operands, as \<open>And(a, b)\<close>) raises ValueError.
\<close>

theorem visit_not_lowering:
  "visit (PTuple [PStr ''NOT'', PTuple [PStr ''NAME'', PStr f]])
     = Inr (PDict [(PStr f, PDict [(PStr ''$exists'', PBool False)])])
   \<and> visit t \<noteq> Inl UnsupportedPredicateError
   \<and> (length args \<noteq> 1 \<longrightarrow>
        visit (PTuple [PStr ''NOT'', PTuple (op # args)]) = Inl ValueError)"
proof (intro conjI impI)
  show "visit (PTuple [PStr ''NOT'', PTuple [PStr ''NAME'', PStr f]])
          = Inr (PDict [(PStr f, PDict [(PStr ''$exists'', PBool False)])])"
    by (simp add: dispatch_NOT visit_not_def dict1_def except_KeyError_def del: dispatch.simps)
  show "visit t \<noteq> Inl UnsupportedPredicateError"
    by (rule visit_supported)
  assume "length args \<noteq> 1"
  then have "unpack2 (PTuple (op # args)) = Inl ValueError"
    by (cases args) (auto split: list.splits)
  then show "visit (PTuple [PStr ''NOT'', PTuple (op # args)]) = Inl ValueError"
    by (simp add: dispatch_NOT visit_not_def except_KeyError_def del: dispatch.simps)
qed

theorem visit_not_lowering_witness:
  "visit (PTuple [PStr ''NOT'', PTuple [PStr ''NAME'', PStr ''energy'']])
     = Inr (PDict [(PStr ''energy'', PDict [(PStr ''$exists'', PBool False)])])
   \<and> visit (PTuple [PStr ''NOT'', PTuple [PStr ''GT'', PTuple [PStr ''NAME'', PStr ''energy''],
                                            PTuple [PStr ''NUMBER'', PInt 3]]])
     \<noteq> Inl UnsupportedPredicateError
   \<and> length [PTuple [PStr ''NAME'', PStr ''energy''], PTuple [PStr ''NUMBER'', PInt 3]] \<noteq> 1
   \<and> visit (PTuple [PStr ''NOT'', PTuple [PStr ''GT'', PTuple [PStr ''NAME'', PStr ''energy''],
                                            PTuple [PStr ''NUMBER'', PInt 3]]])
     = Inl ValueError"
  using visit_not_lowering
    [of "''energy''"
        "PTuple [PStr ''NOT'', PTuple [PStr ''GT'', PTuple [PStr ''NAME'', PStr ''energy''],
                                         PTuple [PStr ''NUMBER'', PInt 3]]]"
        "[PTuple [PStr ''NAME'', PStr ''energy''], PTuple [PStr ''NUMBER'', PInt 3]]"
        "PStr ''GT''"]
  by simp

section \<open>Properties of type and shape inference\<close>

lemmas get_type_defs =
  get_type_of_property_def os_get_type_of_property_def find_one_exists_def search_exists_def
  lookup_field_def getkey_def describe_arrays_def describe_other_def type_name_def

text \<open>
  C2, as the claim states it, fails. For the sampled value \<open>[[1,2,3],[4,5,6]]\<close> the
  descriptor is \<open>array(int, N x 3)\<close> under the category \<open>arrays\<close> (the outer length is
  the letter N, never a number, and the separator is the letter x between spaces) and
  \<open>array(int)\<close> under any other category, the claim's \<open>array\<close> included; it is never the
  claimed string, whose multiplication sign is the two bytes 195 and 151. For \<open>[1,2,3]\<close>
  the descriptor is \<open>vector(int, N)\<close>, not \<open>vector(int, 3)\<close>.
\<close>

theorem get_type_array_counterexample:
  "get_type_of_property
     [PDict [(PStr ''forces'', PList [PList [PInt 1, PInt 2, PInt 3],
                                      PList [PInt 4, PInt 5, PInt 6]])]]
     ''forces'' ''arrays'' = Inr ''array(int, N x 3)''
   \<and> get_type_of_property
     [PDict [(PStr ''forces'', PList [PList [PInt 1, PInt 2, PInt 3],
                                      PList [PInt 4, PInt 5, PInt 6]])]]
     ''forces'' ''arrays'' \<noteq> Inr (''array(int, 2'' @ [char_of (195::nat), char_of (151::nat)] @ ''3)'')
   \<and> get_type_of_property
     [PDict [(PStr ''forces'', PList [PList [PInt 1, PInt 2, PInt 3],
                                      PList [PInt 4, PInt 5, PInt 6]])]]
     ''forces'' ''array'' = Inr ''array(int)''
   \<and> get_type_of_property
     [PDict [(PStr ''numbers'', PList [PInt 1, PInt 2, PInt 3])]]
     ''numbers'' ''arrays'' = Inr ''vector(int, N)''
   \<and> get_type_of_property
     [PDict [(PStr ''numbers'', PList [PInt 1, PInt 2, PInt 3])]]
     ''numbers'' ''arrays'' \<noteq> Inr ''vector(int, 3)''"
  by (simp add: get_type_defs str_nat.simps)

text \<open>
  C2, amended: in both backends, when the first record of the database holds the value
  \<open>[[1,2,3],[4,5,6]]\<close> for the field, type inference under the category \<open>arrays\<close>
  returns \<open>array(int, N x 3)\<close>: the inner length 3 and the letter N for the outer
  length. When it holds \<open>[1,2,3]\<close>, it returns \<open>vector(int, N)\<close>.
\<close>

theorem get_type_array_descriptor:
  "get_type_of_property
     (PDict ((PStr prop, PList [PList [PInt 1, PInt 2, PInt 3],
                                PList [PInt 4, PInt 5, PInt 6]]) # others) # db)
     prop ''arrays'' = Inr ''array(int, N x 3)''
   \<and> os_get_type_of_property
     (PDict ((PStr prop, PList [PList [PInt 1, PInt 2, PInt 3],
                                PList [PInt 4, PInt 5, PInt 6]]) # others) # db)
     prop ''arrays'' = Inr ''array(int, N x 3)''
   \<and> get_type_of_property
     (PDict ((PStr prop, PList [PInt 1, PInt 2, PInt 3]) # others) # db)
     prop ''arrays'' = Inr ''vector(int, N)''
   \<and> os_get_type_of_property
     (PDict ((PStr prop, PList [PInt 1, PInt 2, PInt 3]) # others) # db)
     prop ''arrays'' = Inr ''vector(int, N)''"
  by (simp add: get_type_defs str_nat.simps)

theorem get_type_array_descriptor_witness:
  "get_type_of_property
     [PDict [(PStr ''forces'', PList [PList [PInt 1, PInt 2, PInt 3],
                                      PList [PInt 4, PInt 5, PInt 6]]),
             (PStr ''n_atoms'', PInt 2)],
      PDict [(PStr ''n_atoms'', PInt 3)]]
     ''forces'' ''arrays'' = Inr ''array(int, N x 3)''
   \<and> os_get_type_of_property
     [PDict [(PStr ''forces'', PList [PInt 1, PInt 2, PInt 3]),
             (PStr ''n_atoms'', PInt 2)],
      PDict [(PStr ''n_atoms'', PInt 3)]]
     ''forces'' ''arrays'' = Inr ''vector(int, N)''"
  using get_type_array_descriptor
    [of "''forces''" "[(PStr ''n_atoms'', PInt 2)]" "[PDict [(PStr ''n_atoms'', PInt 3)]]"]
  by simp

text \<open>
  C6, as the claim states it, fails: with no record holding the field, the document-store
  backend raises TypeError (it subscripts the \<open>None\<close> that \<open>find_one\<close> returns) and the
  search-index backend raises IndexError (it takes the first of no hits). Neither is
  FieldNotFoundError.
\<close>

theorem get_type_absent_counterexample:
  "get_type_of_property [PDict [(PStr ''n_atoms'', PInt 2)]] ''energy'' ''info''
     = Inl TypeError
   \<and> get_type_of_property [PDict [(PStr ''n_atoms'', PInt 2)]] ''energy'' ''info''
     \<noteq> Inl FieldNotFoundError
   \<and> os_get_type_of_property [PDict [(PStr ''n_atoms'', PInt 2)]] ''energy'' ''info''
     = Inl IndexError
   \<and> os_get_type_of_property [PDict [(PStr ''n_atoms'', PInt 2)]] ''energy'' ''info''
     \<noteq> Inl FieldNotFoundError"
  by (simp add: get_type_defs)

text \<open>
  C6, amended: when no record has the queried field, type inference fails: with
  TypeError in the document-store backend and with IndexError in the search-index
  backend.
\<close>

theorem get_type_absent_fails:
  assumes "\<forall>d\<in>set db. lookup_field d prop = None"
  shows "get_type_of_property db prop category = Inl TypeError
       \<and> os_get_type_of_property db prop category = Inl IndexError"
proof
  from assms have "filter (\<lambda>d. lookup_field d prop \<noteq> None) db = []"
    by (simp add: filter_empty_conv)
  then show "get_type_of_property db prop category = Inl TypeError"
    by (simp add: get_type_of_property_def find_one_exists_def getkey_def)
  from assms
  have "filter (\<lambda>d. case lookup_field d prop of
                       None \<Rightarrow> False
                     | Some v \<Rightarrow> v \<noteq> PNone \<and> v \<noteq> PList []) db = []"
    by (simp add: filter_empty_conv)
  then show "os_get_type_of_property db prop category = Inl IndexError"
    by (simp add: os_get_type_of_property_def search_exists_def)
qed

theorem get_type_absent_fails_witness:
  "lookup_field (PDict [(PStr ''n_atoms'', PInt 2)]) ''energy'' = None
   \<and> lookup_field (PDict []) ''energy'' = None
   \<and> get_type_of_property [PDict [(PStr ''n_atoms'', PInt 2)], PDict []] ''energy'' ''info''
       = Inl TypeError
   \<and> os_get_type_of_property [PDict [(PStr ''n_atoms'', PInt 2)], PDict []] ''energy'' ''info''
       = Inl IndexError"
proof -
  have h: "\<forall>d\<in>set [PDict [(PStr ''n_atoms'', PInt 2)], PDict []]. lookup_field d ''energy'' = None"
    by (simp add: lookup_field_def)
  show ?thesis
    using h get_type_absent_fails [OF h, of "''info''"] by simp
qed

section \<open>Properties of the histogram dispatcher\<close>

lemmas histogram_defs = histogram_def isinstance_def kwargs_get_def returns_def

lemma upt_0_10: "[0..<10] = [0, 1, 2, 3, 4, 5, 6, 7, 8, 9]"
  by (simp add: eval_nat_numeral upt_rec)

lemma upt_0_11: "[0..<11] = [0, 1, 2, 3, 4, 5, 6, 7, 8, 9, 10]"
  by (simp add: eval_nat_numeral upt_rec)

lemma wrap64_id: "- (2 ^ 63) \<le> i \<Longrightarrow> i < 2 ^ 63 \<Longrightarrow> wrap64 i = i"
  by (simp add: wrap64_def)



text \<open>
  C4, as the claim states it, fails. The list \<open>[1, True]\<close> holds an \<open>int\<close> and a \<open>bool\<close>,
  two different types, yet \<open>True\<close> is an instance of the type of the first element, so
  the list passes the test and \<open>histogram\<close> returns an integer histogram, not \<open>None\<close>.
\<close>

theorem histogram_mixed_counterexample:
  "type_of (PInt 1) \<noteq> type_of (PBool True)
   \<and> histogram ''p'' (Value (PList [PInt 1, PBool True]))
       \<lparr>kw_bins = None, kw_truncate = None\<rparr>
     = Inr (Some (HistNum
         \<lparr>n_type = ''hist_int'', n_name = ''p'', n_bins = 1,
          n_edges = [1 / 2, 3 / 2], n_counts = [2],
          n_min = 1, n_max = 1, n_median = 1, n_std = 0, n_var = 0\<rparr>))"
  by (simp add: histogram_defs hist_int_def np_array_def in_int64_def wrap64_id
      np_histogram_def linspace_def in_bin_def np_mean_def np_var_def np_std_def)

text \<open>
  C4, amended: for every list of values passed to \<open>histogram\<close>, if the list is empty the
  result is \<open>None\<close>, and if some element is not an instance of the type of the first
  element (as \<open>isinstance\<close> decides it, so that a \<open>bool\<close> is an \<open>int\<close>) the result is
  \<open>None\<close> with no exception raised.
\<close>

theorem histogram_mixed:
  "histogram name (Value (PList [])) kwargs = Inr None
   \<and> ((\<exists>y\<in>set xs. \<not> isinstance y (type_of (hd xs))) \<longrightarrow>
        histogram name (Value (PList xs)) kwargs = Inr None)"
  by (cases xs) (auto simp: histogram_def Let_def list_all_iff)

theorem histogram_mixed_witness:
  "histogram ''p'' (Value (PList [])) \<lparr>kw_bins = None, kw_truncate = None\<rparr> = Inr None
   \<and> PStr ''x'' \<in> set [PInt 1, PStr ''x'', PFloat 2]
   \<and> \<not> isinstance (PStr ''x'') (type_of (hd [PInt 1, PStr ''x'', PFloat 2]))
   \<and> histogram ''p'' (Value (PList [PInt 1, PStr ''x'', PFloat 2]))
        \<lparr>kw_bins = None, kw_truncate = None\<rparr> = Inr None"
proof -
  have h: "\<exists>y\<in>set [PInt 1, PStr ''x'', PFloat 2].
             \<not> isinstance y (type_of (hd [PInt 1, PStr ''x'', PFloat 2]))"
    by (simp add: isinstance_def)
  have "\<not> isinstance (PStr ''x'') (type_of (hd [PInt 1, PStr ''x'', PFloat 2]))"
    by (simp add: isinstance_def)
  then show ?thesis
    using h histogram_mixed
      [of "''p''" "\<lparr>kw_bins = None, kw_truncate = None\<rparr>" "[PInt 1, PStr ''x'', PFloat 2]"]
    by simp
qed

text \<open>
  C10, as the claim states it, fails. A numpy array of two elements is not a list, and
  \<open>histogram\<close> does not return \<open>None\<close> for it: the first statement, \<open>if not data\<close>,
  raises ValueError, since the truth value of such an array is ambiguous.
\<close>

theorem histogram_not_list_counterexample:
  "\<not> is_list (Ndarray 1 [2])
   \<and> histogram ''p'' (Ndarray 1 [2]) \<lparr>kw_bins = None, kw_truncate = None\<rparr> = Inl ValueError"
  by (simp add: histogram_def)

text \<open>
  C10, amended: for every input that is not a list and whose truth test returns (a
  scalar, a string, a datetime, a tuple, a dictionary, \<open>None\<close>, a generator, a numpy
  array of one element), \<open>histogram\<close> returns \<open>None\<close> without raising; when the truth
  test raises, as it does for a numpy array of more than one element, \<open>histogram\<close>
  raises the same exception; and only non-empty lists are ever dispatched to a builder:
  a histogram is returned for a non-empty list only, and an exception is that of the
  truth test or comes with a non-empty list.
\<close>

theorem histogram_not_list:
  "(\<not> is_list data \<and> truth_value data = Inr t \<longrightarrow> histogram name data kwargs = Inr None)
   \<and> (truth_value data = Inl e \<longrightarrow> histogram name data kwargs = Inl e)
   \<and> (histogram name data kwargs = Inr (Some h) \<longrightarrow> (\<exists>x xs. data = Value (PList (x # xs))))
   \<and> (histogram name data kwargs = Inl e' \<longrightarrow>
        truth_value data = Inl e' \<or> (\<exists>x xs. data = Value (PList (x # xs))))"
proof (intro conjI impI)
  assume "\<not> is_list data \<and> truth_value data = Inr t"
  then show "histogram name data kwargs = Inr None"
    by (cases data rule: is_list.cases) (auto simp: histogram_def split: pyval.splits)
next
  assume "truth_value data = Inl e"
  then show "histogram name data kwargs = Inl e"
    by (simp add: histogram_def)
next
  assume "histogram name data kwargs = Inr (Some h)"
  then show "\<exists>x xs. data = Value (PList (x # xs))"
    by (cases data rule: is_list.cases)
      (auto simp: histogram_def split: sum.splits if_splits list.splits pyval.splits)
next
  assume "histogram name data kwargs = Inl e'"
  then show "truth_value data = Inl e' \<or> (\<exists>x xs. data = Value (PList (x # xs)))"
    by (cases data rule: is_list.cases)
      (auto simp: histogram_def split: sum.splits if_splits list.splits pyval.splits)
qed

theorem histogram_not_list_witness:
  "\<not> is_list (Value (PTuple [PInt 1, PInt 2]))
   \<and> truth_value (Value (PTuple [PInt 1, PInt 2])) = Inr True
   \<and> histogram ''p'' (Value (PTuple [PInt 1, PInt 2])) \<lparr>kw_bins = None, kw_truncate = None\<rparr>
       = Inr None
   \<and> \<not> is_list Generator \<and> truth_value Generator = Inr True
   \<and> histogram ''p'' Generator \<lparr>kw_bins = None, kw_truncate = None\<rparr> = Inr None
   \<and> truth_value (Ndarray 1 [2]) = Inl ValueError
   \<and> histogram ''p'' (Ndarray 1 [2]) \<lparr>kw_bins = None, kw_truncate = None\<rparr> = Inl ValueError"
  using histogram_not_list
      [of "Value (PTuple [PInt 1, PInt 2])" True "''p''"
          "\<lparr>kw_bins = None, kw_truncate = None\<rparr>"]
    histogram_not_list
      [of Generator True "''p''" "\<lparr>kw_bins = None, kw_truncate = None\<rparr>"]
    histogram_not_list
      [of "Ndarray 1 [2]" _ "''p''" "\<lparr>kw_bins = None, kw_truncate = None\<rparr>" ValueError]
  by simp

section \<open>Properties of the integer histogram\<close>















section \<open>Properties of the string histogram\<close>

subsection \<open>The counter\<close>

lemma map_of_counter_add:
  "map_of (counter_add kcs k) =
     (map_of kcs)(k \<mapsto> (case map_of kcs k of None \<Rightarrow> 1 | Some c \<Rightarrow> Suc c))"
  by (induction kcs) (auto simp: fun_eq_iff)

lemma keys_counter_add:
  "map fst (counter_add kcs k) =
     (if k \<in> fst ` set kcs then map fst kcs else map fst kcs @ [k])"
  by (induction kcs) (auto simp: rev_image_eqI)

lemma distinct_counter_add:
  "distinct (map fst kcs) \<Longrightarrow> distinct (map fst (counter_add kcs k))"
  by (simp add: keys_counter_add)

lemma set_counter_add: "fst ` set (counter_add kcs k) = insert k (fst ` set kcs)"
proof -
  have "set (map fst (counter_add kcs k)) = insert k (set (map fst kcs))"
    by (auto simp: keys_counter_add)
  then show ?thesis by simp
qed

lemma foldl_counter_distinct:
  "distinct (map fst acc) \<Longrightarrow> distinct (map fst (foldl counter_add acc xs))"
  by (induction xs arbitrary: acc) (simp_all add: distinct_counter_add)

lemma foldl_counter_keys:
  "fst ` set (foldl counter_add acc xs) = fst ` set acc \<union> set xs"
  by (induction xs arbitrary: acc) (simp_all add: set_counter_add)

lemma foldl_counter_count:
  "(case map_of (foldl counter_add acc xs) l of None \<Rightarrow> 0 | Some c \<Rightarrow> c)
     = (case map_of acc l of None \<Rightarrow> 0 | Some c \<Rightarrow> c) + count_list xs l"
  by (induction xs arbitrary: acc) (auto simp: map_of_counter_add split: option.splits)

lemma Counter_distinct: "distinct (map fst (Counter data))"
  by (simp add: Counter_def foldl_counter_distinct)

lemma Counter_keys: "fst ` set (Counter data) = set data"
  by (simp add: Counter_def foldl_counter_keys)

lemma Counter_count:
  assumes "(l, c) \<in> set (Counter data)"
  shows "c = count_list data l"
proof -
  from assms have "map_of (Counter data) l = Some c"
    using Counter_distinct by simp
  then show ?thesis
    using foldl_counter_count[of "[]" data l] by (simp add: Counter_def)
qed

lemma Counter_nonempty: "data \<noteq> [] \<Longrightarrow> Counter data \<noteq> []"
  using Counter_keys[of data] by auto

lemma truncate_all_nonempty: "data \<noteq> [] \<Longrightarrow> truncate_all trunc data \<noteq> []"
  by (simp add: truncate_all_def split: option.splits)

subsection \<open>The reversed sort\<close>

lemma sorted_wrt_conj:
  "sorted_wrt (\<lambda>x y. P x y \<and> Q x y) xs = (sorted_wrt P xs \<and> sorted_wrt Q xs)"
  by (induction xs) auto

lemma sorted_wrt_distinct_map:
  "sorted_wrt (\<lambda>x y. f x \<noteq> f y) xs = distinct (map f xs)"
  by (induction xs) auto

lemma sorted_reverse_mset: "mset (sorted_reverse items) = mset items"
  by (simp add: sorted_reverse_def)

lemma sorted_reverse_set: "set (sorted_reverse items) = set items"
  by (simp add: sorted_reverse_def)

lemma sorted_reverse_distinct:
  assumes "distinct (map fst items)"
  shows "distinct (map fst (sorted_reverse items))"
proof -
  have "mset (map fst (sorted_reverse items)) = mset (map fst items)"
    by (simp add: sorted_reverse_mset)
  with assms show ?thesis by (metis mset_eq_imp_distinct_iff)
qed

lemma sorted_reverse_descending:
  "sorted_wrt (\<lambda>x y. (snd y, fst y) \<le> (snd x, fst x)) (sorted_reverse items)"
proof -
  let ?key = "\<lambda>(label :: string, count :: nat). (count, label)"
  have "sorted (map ?key (sort_key ?key (rev items)))" by (rule sorted_sort_key)
  then have "sorted_wrt (\<lambda>x y. ?key x \<le> ?key y) (sort_key ?key (rev items))"
    by (simp add: sorted_wrt_map)
  then have "sorted_wrt (\<lambda>x y. ?key y \<le> ?key x) (sorted_reverse items)"
    by (simp add: sorted_reverse_def sorted_wrt_rev)
  then show ?thesis by (simp add: case_prod_beta)
qed

text \<open>With distinct labels the ranking is strict: a higher count first, and among
  equal counts the greater label first.\<close>

lemma sorted_reverse_ranked:
  assumes "distinct (map fst items)"
  shows "sorted_wrt (\<lambda>(l1, c1) (l2, c2). c2 < c1 \<or> (c2 = c1 \<and> l2 < l1))
           (sorted_reverse items)"
proof -
  have "sorted_wrt (\<lambda>x y. (snd y, fst y) \<le> (snd x, fst x) \<and> fst x \<noteq> fst y)
          (sorted_reverse items)"
    using sorted_reverse_descending sorted_reverse_distinct[OF assms]
    by (simp add: sorted_wrt_conj sorted_wrt_distinct_map)
  then show ?thesis
    by (rule sorted_wrt_mono_rel[rotated]) (auto simp: less_eq_prod_def)
qed

lemmas hist_str_defs =
  hist_str_def truncate_all_def truncate_item_def Counter_def sorted_reverse_def slice_to_def

subsection \<open>Ranking\<close>

text \<open>
  C3, as the claim states it, fails in its tie-break. The labels \<open>a\<close> and \<open>b\<close> both
  occur once and \<open>a\<close> is the lesser label, yet with \<open>bins = 1\<close> the label reported is
  \<open>b\<close>: \<open>reverse=True\<close> reverses the whole key (count, label), the label included.
\<close>

theorem hist_str_tie_counterexample:
  "''a'' < ''b''
   \<and> hist_str ''p'' [''a'', ''b''] (Some 1) (Some 20)
     = Inr \<lparr>s_type = ''hist_str'', s_name = ''p'', s_total = 2, s_unique = 2,
            s_labels = [''b''], s_counts = [1]\<rparr>"
  by (simp add: hist_str_defs)

text \<open>
  C3, amended: for every non-empty list of strings and every positive \<open>bins\<close>, the
  string histogram ranks the labels (the truncated values, each with the number of its
  occurrences) by count descending with label descending as the tie-break, and reports
  the top \<open>bins\<close> labels with their counts; in particular for the values
  \<open>["a","a","b","c","c","c"]\<close> with \<open>bins = 2\<close> the labels are \<open>["c","a"]\<close> with counts
  \<open>[3,2]\<close>.
\<close>

theorem hist_str_ranking:
  assumes "data \<noteq> []" and "0 < b"
  shows "(\<exists>r ranked.
            hist_str name data (Some b) trunc = Inr r
          \<and> s_labels r = take (nat b) (map fst ranked)
          \<and> s_counts r = take (nat b) (map snd ranked)
          \<and> set (map fst ranked) = set (truncate_all trunc data)
          \<and> (\<forall>(l, c)\<in>set ranked. c = count_list (truncate_all trunc data) l)
          \<and> sorted_wrt (\<lambda>(l1, c1) (l2, c2). c2 < c1 \<or> (c2 = c1 \<and> l2 < l1)) ranked)
       \<and> hist_str name [''a'', ''a'', ''b'', ''c'', ''c'', ''c''] (Some 2) (Some 20)
           = Inr \<lparr>s_type = ''hist_str'', s_name = name, s_total = 6, s_unique = 3,
                  s_labels = [''c'', ''a''], s_counts = [3, 2]\<rparr>"
proof
  let ?data = "truncate_all trunc data"
  let ?ranked = "sorted_reverse (Counter ?data)"
  have ne: "?ranked \<noteq> []"
    using Counter_nonempty[OF truncate_all_nonempty[OF assms(1)], of trunc]
    by (metis sorted_reverse_set set_empty)
  have run: "hist_str name data (Some b) trunc =
     Inr \<lparr>s_type = ''hist_str'', s_name = name,
          s_total = sum_list (map snd (Counter ?data)), s_unique = card (set data),
          s_labels = take (nat b) (map fst ?ranked),
          s_counts = take (nat b) (map snd ?ranked)\<rparr>"
    using assms(2) ne by (simp add: hist_str_def Let_def slice_to_def)
  have keys: "set (map fst ?ranked) = set ?data"
    using Counter_keys[of ?data] by (simp add: sorted_reverse_set)
  have counts: "\<forall>(l, c)\<in>set ?ranked. c = count_list ?data l"
    by (auto simp: sorted_reverse_set dest: Counter_count)
  have ranked: "sorted_wrt (\<lambda>(l1, c1) (l2, c2). c2 < c1 \<or> (c2 = c1 \<and> l2 < l1)) ?ranked"
    by (rule sorted_reverse_ranked[OF Counter_distinct])
  from run obtain r where r: "hist_str name data (Some b) trunc = Inr r"
    "s_labels r = take (nat b) (map fst ?ranked)"
    "s_counts r = take (nat b) (map snd ?ranked)"
    by simp
  show "\<exists>r ranked.
            hist_str name data (Some b) trunc = Inr r
          \<and> s_labels r = take (nat b) (map fst ranked)
          \<and> s_counts r = take (nat b) (map snd ranked)
          \<and> set (map fst ranked) = set (truncate_all trunc data)
          \<and> (\<forall>(l, c)\<in>set ranked. c = count_list (truncate_all trunc data) l)
          \<and> sorted_wrt (\<lambda>(l1, c1) (l2, c2). c2 < c1 \<or> (c2 = c1 \<and> l2 < l1)) ranked"
    using r keys counts ranked by (intro exI[of _ r] exI[of _ ?ranked]) simp
next
  show "hist_str name [''a'', ''a'', ''b'', ''c'', ''c'', ''c''] (Some 2) (Some 20)
           = Inr \<lparr>s_type = ''hist_str'', s_name = name, s_total = 6, s_unique = 3,
                  s_labels = [''c'', ''a''], s_counts = [3, 2]\<rparr>"
    by (simp add: hist_str_defs)
qed

theorem hist_str_ranking_witness:
  "[''x'', ''y'', ''y'', ''z''] \<noteq> [] \<and> (0::int) < 2
   \<and> (\<exists>r ranked.
         hist_str ''p'' [''x'', ''y'', ''y'', ''z''] (Some 2) (Some 20) = Inr r
       \<and> s_labels r = take (nat 2) (map fst ranked)
       \<and> s_counts r = take (nat 2) (map snd ranked)
       \<and> set (map fst ranked) = set (truncate_all (Some 20) [''x'', ''y'', ''y'', ''z''])
       \<and> sorted_wrt (\<lambda>(l1, c1) (l2, c2). c2 < c1 \<or> (c2 = c1 \<and> l2 < l1)) ranked)
   \<and> hist_str ''p'' [''x'', ''y'', ''y'', ''z''] (Some 2) (Some 20)
       = Inr \<lparr>s_type = ''hist_str'', s_name = ''p'', s_total = 4, s_unique = 3,
              s_labels = [''y'', ''z''], s_counts = [2, 1]\<rparr>
   \<and> hist_str ''p'' [''a'', ''a'', ''b'', ''c'', ''c'', ''c''] (Some 2) (Some 20)
       = Inr \<lparr>s_type = ''hist_str'', s_name = ''p'', s_total = 6, s_unique = 3,
              s_labels = [''c'', ''a''], s_counts = [3, 2]\<rparr>"
proof -
  have h1: "[''x'', ''y'', ''y'', ''z''] \<noteq> []" and h2: "(0::int) < 2"
    by simp_all
  have v: "hist_str ''p'' [''x'', ''y'', ''y'', ''z''] (Some 2) (Some 20)
       = Inr \<lparr>s_type = ''hist_str'', s_name = ''p'', s_total = 4, s_unique = 3,
              s_labels = [''y'', ''z''], s_counts = [2, 1]\<rparr>"
    by (simp add: hist_str_defs card_insert_if)
  show ?thesis
    using h1 h2 v hist_str_ranking [OF h1 h2, of "''p''" "Some 20"] by blast
qed

subsection \<open>No selection\<close>

text \<open>
  C5, as the claim states it, fails for zero: the branch taken leaves the items
  unsorted, and the slices \<open>labels[:0]\<close> and \<open>counts[:0]\<close> are empty, so \<open>bins = 0\<close>
  reports no label at all.
\<close>

theorem hist_str_zero_bins_counterexample:
  "histogram ''p'' (Value (PList [PStr ''a'', PStr ''b'']))
     \<lparr>kw_bins = Some (Some 0), kw_truncate = None\<rparr>
   = Inr (Some (HistStr
       \<lparr>s_type = ''hist_str'', s_name = ''p'', s_total = 2, s_unique = 2,
        s_labels = [], s_counts = []\<rparr>))"
  by (simp add: histogram_defs hist_str_defs)

text \<open>
  C5, amended: when the \<open>bins\<close> option is \<open>None\<close>, the string histogram of a non-empty
  list reports all distinct labels, each once, with their counts: the label at every
  position comes with the number of its occurrences among the truncated values.
\<close>

theorem hist_str_all_labels:
  assumes "data \<noteq> []"
  shows "\<exists>r. hist_str name data None trunc = Inr r
            \<and> distinct (s_labels r)
            \<and> set (s_labels r) = set (truncate_all trunc data)
            \<and> length (s_counts r) = length (s_labels r)
            \<and> (\<forall>i < length (s_labels r).
                  s_counts r ! i = count_list (truncate_all trunc data) (s_labels r ! i))"
proof -
  let ?data = "truncate_all trunc data"
  let ?items = "Counter ?data"
  have ne: "?items \<noteq> []"
    by (rule Counter_nonempty[OF truncate_all_nonempty[OF assms]])
  have run: "hist_str name data None trunc =
     Inr \<lparr>s_type = ''hist_str'', s_name = name,
          s_total = sum_list (map snd ?items), s_unique = card (set data),
          s_labels = map fst ?items, s_counts = map snd ?items\<rparr>"
    using ne by (simp add: hist_str_def Let_def slice_to_def)
  have "\<forall>i < length ?items. snd (?items ! i) = count_list ?data (fst (?items ! i))"
  proof (intro allI impI)
    fix i assume "i < length ?items"
    then have "(fst (?items ! i), snd (?items ! i)) \<in> set ?items" by simp
    then show "snd (?items ! i) = count_list ?data (fst (?items ! i))"
      by (rule Counter_count)
  qed
  with run Counter_distinct[of ?data] Counter_keys[of ?data] show ?thesis by simp
qed

theorem hist_str_all_labels_witness:
  "[''b'', ''a'', ''b''] \<noteq> []
   \<and> (\<exists>r. hist_str ''p'' [''b'', ''a'', ''b''] None (Some 20) = Inr r
         \<and> distinct (s_labels r)
         \<and> set (s_labels r) = set (truncate_all (Some 20) [''b'', ''a'', ''b''])
         \<and> length (s_counts r) = length (s_labels r))
   \<and> hist_str ''p'' [''b'', ''a'', ''b''] None (Some 20)
       = Inr \<lparr>s_type = ''hist_str'', s_name = ''p'', s_total = 3, s_unique = 2,
              s_labels = [''b'', ''a''], s_counts = [2, 1]\<rparr>"
proof -
  have h: "[''b'', ''a'', ''b''] \<noteq> []" by simp
  have v: "hist_str ''p'' [''b'', ''a'', ''b''] None (Some 20)
       = Inr \<lparr>s_type = ''hist_str'', s_name = ''p'', s_total = 3, s_unique = 2,
              s_labels = [''b'', ''a''], s_counts = [2, 1]\<rparr>"
    by (simp add: hist_str_defs card_insert_if)
  show ?thesis
    using h v hist_str_all_labels [OF h, of "''p''" "Some 20"] by blast
qed

section \<open>Properties of the timestamp histogram\<close>

lemma fromtimestamp_Inr:
  "fromtimestamp x = Inr t \<Longrightarrow> t = Datetime x \<and> min_timestamp \<le> x \<and> x < max_timestamp"
  by (simp add: fromtimestamp_def split: if_splits)

lemma fromtimestamps_Inr: "fromtimestamps ds = Inr ts \<Longrightarrow> ts = map Datetime ds"
  by (induction ds arbitrary: ts) (auto split: sum.splits dest: fromtimestamp_Inr)

text \<open>
  Whenever \<open>_hist_date\<close> returns, it has run the float procedure on the epoch seconds
  and every reported scalar is the conversion of the float statistic: the edges, the
  minimum, the maximum, the mean, the standard deviation and the variance. So the
  variance, a number of squared seconds, was small enough to be a moment of the calendar.
\<close>

lemma hist_date_fields:
  assumes "hist_date name data bins = Inr r"
  shows "\<exists>ts h e. timestamps data = Inr ts
          \<and> np_histogram (FloatArray ts) bins = Inr (h, e)
          \<and> d_edges r = map Datetime e \<and> d_counts r = h
          \<and> d_min r = Datetime (list_min ts) \<and> d_max r = Datetime (list_max ts)
          \<and> d_median r = Datetime (np_mean ts)
          \<and> d_std r = Datetime (np_std ts) \<and> d_var r = Datetime (np_var ts)
          \<and> np_var ts < max_timestamp"
  using assms unfolding hist_date_def
  by (auto split: sum.splits option.splits if_splits prod.splits
      dest!: fromtimestamp_Inr fromtimestamps_Inr)

lemma hist_date_large_variance:
  assumes "timestamps data = Inr ts" and "max_timestamp \<le> np_var ts"
  shows "hist_date name data bins \<noteq> Inr r"
proof
  assume "hist_date name data bins = Inr r"
  from hist_date_fields[OF this] assms show False by auto
qed

lemma sqrt_million_squared: "sqrt 1000000000000 = 1000000"
  by (rule real_sqrt_unique) simp_all

lemma np_var_month: "np_var [1600000000, 1602000000] = 1000000000000"
  by (simp add: np_var_def np_mean_def)

lemma np_std_month: "np_std [1600000000, 1602000000] = 1000000"
  by (simp add: np_std_def np_var_month sqrt_million_squared)

lemma linspace_month:
  "linspace 1600000000 1602000000 10 =
     [1600000000, 1600200000, 1600400000, 1600600000, 1600800000, 1601000000,
      1601200000, 1601400000, 1601600000, 1601800000, 1602000000]"
  by (simp add: linspace_def upt_0_11)

lemma np_histogram_month:
  "np_histogram (FloatArray [1600000000, 1602000000]) (Some 10) =
     Inr ([1, 0, 0, 0, 0, 0, 0, 0, 0, 1],
          [1600000000, 1600200000, 1600400000, 1600600000, 1600800000, 1601000000,
           1601200000, 1601400000, 1601600000, 1601800000, 1602000000])"
  by (simp add: np_histogram_def linspace_month upt_0_10 in_bin_def)

text \<open>
  C9: the claim promises, for every non-empty list of timestamps, a histogram whose
  scalars, the variance among them, are calendar timestamps. The code does not deliver
  it for two timestamps 2000000 seconds (23 days) apart, here 2020-09-13 and 2020-10-06:
  the edges, the minimum, the maximum, the mean (1601000000) and the standard deviation
  (1000000) are converted, and the variance, 1000000000000 squared seconds, lies beyond
  the year 9999, so that \<open>fromtimestamp\<close> raises ValueError and no histogram is returned,
  from \<open>_hist_date\<close> and from \<open>histogram\<close> alike.
\<close>

theorem hist_date_variance_out_of_range:
  "hist_date ''uploaded''
     [PDate (Datetime 1600000000), PDate (Datetime 1602000000)] (Some 10) = Inl ValueError
   \<and> histogram ''uploaded''
       (Value (PList [PDate (Datetime 1600000000), PDate (Datetime 1602000000)]))
       \<lparr>kw_bins = None, kw_truncate = None\<rparr> = Inl ValueError"
proof -
  have "hist_date ''uploaded''
     [PDate (Datetime 1600000000), PDate (Datetime 1602000000)] (Some 10) = Inl ValueError"
    by (simp add: hist_date_def np_histogram_month np_var_month np_std_month np_mean_def
        fromtimestamp_def min_timestamp_def max_timestamp_def)
  then show ?thesis
    by (simp add: histogram_defs)
qed

end
